theory Spec2Isabelle
  imports Complex_Main
begin

section \<open>JavaScript values\<close>

text \<open>
  The dashboard handles values that come out of \<^verbatim>\<open>JSON.parse\<close>. A parsed value is
  null, a boolean, a number, a string, an array or an object. Numbers are the finite
  doubles, each of which is a rational; an object is the list of its own properties in
  insertion order, every key occurring once. \<^verbatim>\<open>undefined\<close> is not a JSON value: a
  property read that finds nothing is \<open>None\<close>.
\<close>

datatype json =
    JNull
  | JBool bool
  | JNum rat
  | JStr string
  | JArr "json list"
  | JObj "(string \<times> json) list"

datatype js_error = TypeError | RangeError

text \<open>JavaScript truthiness: \<^verbatim>\<open>null\<close>, \<^verbatim>\<open>false\<close>, \<^verbatim>\<open>0\<close> and \<^verbatim>\<open>""\<close> are falsy.\<close>

fun truthy :: "json \<Rightarrow> bool" where
  "truthy JNull = False"
| "truthy (JBool b) = b"
| "truthy (JNum n) = (n \<noteq> 0)"
| "truthy (JStr s) = (s \<noteq> [])"
| "truthy (JArr xs) = True"
| "truthy (JObj kvs) = True"

text \<open>Truthiness of the result of a property read; \<^verbatim>\<open>undefined\<close> is falsy.\<close>

fun truthy_opt :: "json option \<Rightarrow> bool" where
  "truthy_opt None = False"
| "truthy_opt (Some v) = truthy v"

text \<open>
  The property read \<^verbatim>\<open>v.k\<close> for the keys the dashboard reads (\<^verbatim>\<open>error\<close>,
  \<^verbatim>\<open>date\<close>, \<^verbatim>\<open>value\<close>): on \<^verbatim>\<open>null\<close> it throws a TypeError, on an object it
  finds the property or \<^verbatim>\<open>undefined\<close>, and on a boolean, number, string or array
  none of these keys exists.
\<close>

fun get_prop :: "json \<Rightarrow> string \<Rightarrow> js_error + json option" where
  "get_prop JNull k = Inl TypeError"
| "get_prop (JObj kvs) k = Inr (map_of kvs k)"
| "get_prop v k = Inr None"

text \<open>
  The property read \<^verbatim>\<open>v.length\<close> on a value that is not \<^verbatim>\<open>null\<close>: the
  number of elements of an array, the length of a string, an object's own property of
  that name, and \<^verbatim>\<open>undefined\<close> on a boolean or a number.
\<close>

fun length_prop :: "json \<Rightarrow> json option" where
  "length_prop (JArr xs) = Some (JNum (of_nat (length xs)))"
| "length_prop (JStr s) = Some (JNum (of_nat (length s)))"
| "length_prop (JObj kvs) = map_of kvs ''length''"
| "length_prop v = None"

text \<open>\<^verbatim>\<open>a || b\<close> on the result of a property read.\<close>

definition or_else :: "json option \<Rightarrow> json \<Rightarrow> json" where
  "or_else a b = (case a of None \<Rightarrow> b | Some v \<Rightarrow> if truthy v then v else b)"

section \<open>The dashboard proxy route\<close>

text \<open>
  \<^verbatim>\<open>const API_URL = process.env.NEXT_PUBLIC_API_URL || 'http://localhost:5000'\<close>;
  the environment variable is absent (\<open>None\<close>) or a string, and the empty string is
  falsy.
\<close>

definition API_URL :: "string option \<Rightarrow> string" where
  "API_URL env =
     (case env of
        None \<Rightarrow> ''http://localhost:5000''
      | Some s \<Rightarrow> if s = [] then ''http://localhost:5000'' else s)"

text \<open>
  The request is read only through \<^verbatim>\<open>new URL(request.url).searchParams\<close>: the list of
  name/value pairs of the query string, in order. \<^verbatim>\<open>searchParams.get(name)\<close> is the
  value of the first pair with that name, or \<^verbatim>\<open>null\<close>.
\<close>

record request =
  searchParams :: "(string \<times> string) list"

definition searchParams_get :: "request \<Rightarrow> string \<Rightarrow> string option" where
  "searchParams_get req k = map_of (searchParams req) k"

text \<open>
  What \<^verbatim>\<open>fetch\<close> does is outside the route: the promise rejects, or it resolves to a
  response with a status code whose \<^verbatim>\<open>json()\<close> either rejects (\<open>None\<close>) or resolves
  to a parsed value.
\<close>

record upstream_response =
  up_status :: nat
  up_json :: "json option"

datatype fetch_outcome = FetchRejects | FetchResolves upstream_response

definition ok :: "upstream_response \<Rightarrow> bool" where
  "ok r = (200 \<le> up_status r \<and> up_status r \<le> 299)"

text \<open>
  \<^verbatim>\<open>NextResponse.json(body, { status })\<close>; the status is 200 when none is given. It
  builds a \<^verbatim>\<open>Response\<close> with a body, and the constructor throws a RangeError for a
  status outside 200 to 599 and a TypeError for a body on a null-body status (204, 205,
  304).
\<close>

record next_response =
  res_status :: nat
  res_body :: json

definition NextResponse_json :: "json \<Rightarrow> nat \<Rightarrow> js_error + next_response" where
  "NextResponse_json b s =
     (if s < 200 \<or> 599 < s then Inl RangeError
      else if s = 204 \<or> s = 205 \<or> s = 304 then Inl TypeError
      else Inr \<lparr>res_status = s, res_body = b\<rparr>)"

text \<open>A run of the handler: the URLs it fetched, in order, and the response it returned.\<close>

record get_run =
  upstream_calls :: "string list"
  response :: next_response

text \<open>
  The response of the \<^verbatim>\<open>catch\<close> block,
  \<^verbatim>\<open>NextResponse.json({ error: 'Internal server error' }, { status: 500 })\<close>; the
  constructor accepts the status 500.
\<close>

definition internal_server_error :: next_response where
  "internal_server_error =
     \<lparr>res_status = 500, res_body = JObj [(''error'', JStr ''Internal server error'')]\<rparr>"

text \<open>
  \<^verbatim>\<open>GET\<close>: every throw inside the \<^verbatim>\<open>try\<close> block (the fetch, either
  \<^verbatim>\<open>response.json()\<close>, the read of \<^verbatim>\<open>errorData.error\<close>, either
  \<^verbatim>\<open>NextResponse.json\<close>) ends in the \<^verbatim>\<open>catch\<close> block.
\<close>

definition upstream_url :: "string option \<Rightarrow> request \<Rightarrow> string" where
  "upstream_url env req =
     (let days = (case searchParams_get req ''days'' of
                    None \<Rightarrow> ''30''
                  | Some d \<Rightarrow> if d = [] then ''30'' else d)
      in API_URL env @ ''/api/dashboard?days='' @ days)"

definition GET :: "string option \<Rightarrow> (string \<Rightarrow> fetch_outcome) \<Rightarrow> request \<Rightarrow> get_run" where
  "GET env fetch req =
     (let url = upstream_url env req in
      \<lparr>upstream_calls = [url],
       response =
         (case fetch url of
            FetchRejects \<Rightarrow> internal_server_error
          | FetchResolves r \<Rightarrow>
              if \<not> ok r then
                (case up_json r of
                   None \<Rightarrow> internal_server_error
                 | Some errorData \<Rightarrow>
                     (case get_prop errorData ''error'' of
                        Inl e \<Rightarrow> internal_server_error
                      | Inr err \<Rightarrow>
                          (case NextResponse_json
                                  (JObj [(''error'', or_else err (JStr ''Failed to fetch dashboard data''))])
                                  (up_status r) of
                             Inl e \<Rightarrow> internal_server_error
                           | Inr res \<Rightarrow> res)))
              else
                (case up_json r of
                   None \<Rightarrow> internal_server_error
                 | Some data \<Rightarrow>
                     (case NextResponse_json data 200 of
                        Inl e \<Rightarrow> internal_server_error
                      | Inr res \<Rightarrow> res)))\<rparr>)"

section \<open>Severity and risk-level colours\<close>

text \<open>\<^verbatim>\<open>getSeverityColor\<close> and \<^verbatim>\<open>getSeverityIcon\<close> of ServiceMisconfigurations.\<close>

definition getSeverityColor :: "string \<Rightarrow> string" where
  "getSeverityColor severity =
     (if severity = ''HIGH'' then ''rose''
      else if severity = ''MEDIUM'' then ''amber''
      else if severity = ''LOW'' then ''emerald''
      else ''slate'')"

datatype icon = ExclamationTriangleIcon | InformationCircleIcon | CheckCircleIcon

definition getSeverityIcon :: "string \<Rightarrow> icon" where
  "getSeverityIcon severity =
     (if severity = ''HIGH'' then ExclamationTriangleIcon
      else if severity = ''MEDIUM'' then InformationCircleIcon
      else if severity = ''LOW'' then CheckCircleIcon
      else InformationCircleIcon)"

text \<open>\<^verbatim>\<open>getRiskLevelColor\<close> of MisconfigTable: the switch has no case for \<^verbatim>\<open>'Low'\<close>.\<close>

definition getRiskLevelColor :: "string \<Rightarrow> string" where
  "getRiskLevelColor level =
     (if level = ''Critical'' then ''bg-red-100 text-red-800''
      else if level = ''High'' then ''bg-blue-100 text-blue-800''
      else if level = ''Medium'' then ''bg-gray-100 text-gray-800''
      else ''bg-gray-100 text-gray-800'')"

text \<open>
  The palette of each switch: the colours it returns from a case, the neutral colour of
  its \<^verbatim>\<open>default\<close> branch (\<^verbatim>\<open>slate\<close>, the gray classes) left out.
\<close>

definition severity_palette :: "string list" where
  "severity_palette = [''rose'', ''amber'', ''emerald'']"

definition risk_palette :: "string list" where
  "risk_palette = [''bg-red-100 text-red-800'', ''bg-blue-100 text-blue-800'']"

text \<open>
  The colour families of the specification, and the family each returned colour belongs
  to, by its hue name: rose and red are red, amber is amber/orange, emerald and blue are
  green/blue, slate and gray are neutral.
\<close>

datatype colour_family = RedFamily | AmberOrangeFamily | GreenBlueFamily | NeutralGrayFamily

definition family_of :: "string \<Rightarrow> colour_family option" where
  "family_of c =
     (if c = ''rose'' \<or> c = ''bg-red-100 text-red-800'' then Some RedFamily
      else if c = ''amber'' then Some AmberOrangeFamily
      else if c = ''emerald'' \<or> c = ''bg-blue-100 text-blue-800'' then Some GreenBlueFamily
      else if c = ''slate'' \<or> c = ''bg-gray-100 text-gray-800'' then Some NeutralGrayFamily
      else None)"

text \<open>The assignment of families in the specification's words.\<close>

definition spec_severity_family :: "string \<Rightarrow> colour_family" where
  "spec_severity_family s =
     (if s = ''HIGH'' then RedFamily
      else if s = ''MEDIUM'' then AmberOrangeFamily
      else if s = ''LOW'' then GreenBlueFamily
      else NeutralGrayFamily)"

definition spec_risk_family :: "string \<Rightarrow> colour_family" where
  "spec_risk_family l =
     (if l = ''Critical'' then RedFamily
      else if l = ''High'' then AmberOrangeFamily
      else if l = ''Medium'' then GreenBlueFamily
      else NeutralGrayFamily)"

section \<open>Domain model\<close>

text \<open>
  \<^verbatim>\<open>Misconfiguration\<close> and \<^verbatim>\<open>Resource\<close> of \<^verbatim>\<open>types/aws.ts\<close>. The resource is
  polymorphic in its findings, since ServiceMisconfigurations replaces them by decorated
  ones. \<^verbatim>\<open>ServiceData\<close> is an object used as a dictionary; \<^verbatim>\<open>Object.entries\<close> lists
  it in insertion order.
\<close>

record misconfiguration =
  mis_type :: string
  severity :: string
  description :: string

record 'm resource =
  res_id :: string
  resource_id :: string
  res_type :: string
  res_name :: string
  relationships :: "string list"
  misconfigurations :: "'m list"

type_synonym 'm service_data = "(string \<times> 'm resource list) list"

record risk_metrics =
  high :: int
  medium :: int
  low :: int

section \<open>Resource graph projection\<close>

text \<open>
  \<^verbatim>\<open>toLowerCase\<close> on the ASCII letters. No character outside ASCII lower-cases to
  one of the letters of \<^verbatim>\<open>ec2\<close>, \<^verbatim>\<open>s3\<close>, \<^verbatim>\<open>rds\<close> or \<^verbatim>\<open>iam\<close> alone, so the
  switch below decides as the source does.
\<close>

definition lower_char :: "char \<Rightarrow> char" where
  "lower_char c =
     (let n = (of_char c :: nat) in if 65 \<le> n \<and> n \<le> 90 then char_of (n + 32) else c)"

definition toLowerCase :: "string \<Rightarrow> string" where
  "toLowerCase s = map lower_char s"

definition getResourceColor :: "string \<Rightarrow> string" where
  "getResourceColor t =
     (let l = toLowerCase t in
      if l = ''ec2'' then ''#ff9900''
      else if l = ''s3'' then ''#e31a1c''
      else if l = ''rds'' then ''#33a02c''
      else if l = ''iam'' then ''#1f78b4''
      else ''#6a3d9a'')"

record graph_node =
  node_id :: string
  node_name :: string
  node_val :: nat
  node_color :: string

record graph_link =
  link_source :: string
  link_target :: string

record graph_data =
  nodes :: "graph_node list"
  links :: "graph_link list"

text \<open>\<^verbatim>\<open>graphData\<close>: \<^verbatim>\<open>resources.map\<close> for the nodes, \<^verbatim>\<open>resources.flatMap\<close> for the links.\<close>

definition graphData :: "'m resource list \<Rightarrow> graph_data" where
  "graphData resources =
     \<lparr>nodes = map (\<lambda>r. \<lparr>node_id = res_id r, node_name = res_name r, node_val = 1,
                          node_color = getResourceColor (res_type r)\<rparr>) resources,
      links = concat (map (\<lambda>r. map (\<lambda>targetId. \<lparr>link_source = res_id r, link_target = targetId\<rparr>)
                                   (relationships r)) resources)\<rparr>"

text \<open>
  The component: the props type requires \<^verbatim>\<open>resources\<close>, there is no default and no
  guard, so on \<^verbatim>\<open>undefined\<close> (\<open>None\<close>) the call \<^verbatim>\<open>resources.map\<close> throws a
  TypeError. Otherwise it renders the card with the force graph.
\<close>

datatype rr_render = GraphCard string graph_data

definition ResourceRelationships :: "'m resource list option \<Rightarrow> js_error + rr_render" where
  "ResourceRelationships resources =
     (case resources of
        None \<Rightarrow> Inl TypeError
      | Some rs \<Rightarrow> Inr (GraphCard ''Resource Relationships'' (graphData rs)))"

section \<open>Service misconfigurations\<close>

text \<open>
  \<^verbatim>\<open>{ ...issue, severityColor, Icon }\<close>: the finding with two more fields.
\<close>

record issue_view = misconfiguration +
  severityColor :: string
  Icon :: icon

definition decorate_issue :: "misconfiguration \<Rightarrow> issue_view" where
  "decorate_issue issue =
     \<lparr>mis_type = mis_type issue, severity = severity issue, description = description issue,
      severityColor = getSeverityColor (severity issue),
      Icon = getSeverityIcon (severity issue)\<rparr>"

definition decorate_resource :: "misconfiguration resource \<Rightarrow> issue_view resource" where
  "decorate_resource r =
     \<lparr>res_id = res_id r, resource_id = resource_id r, res_type = res_type r,
      res_name = res_name r, relationships = relationships r,
      misconfigurations = map decorate_issue (misconfigurations r)\<rparr>"

definition resourcesList :: "misconfiguration service_data \<Rightarrow> issue_view service_data" where
  "resourcesList services = map (\<lambda>(service, resources). (service, map decorate_resource resources)) services"

text \<open>
  The render: the fallback box, or the card with one section per service; a section with
  no resource reads \<^verbatim>\<open>No issues found\<close>.
\<close>

datatype section_body = NoIssuesFound | ResourceBoxes "issue_view resource list"

datatype sm_render =
    SmFallback string string
  | SmCard string "(string \<times> section_body) list"

definition ServiceMisconfigurations :: "misconfiguration service_data option \<Rightarrow> js_error + sm_render" where
  "ServiceMisconfigurations services_prop =
     (let services = (case services_prop of None \<Rightarrow> [] | Some s \<Rightarrow> s) in
      if length (map fst services) = 0 then
        Inr (SmFallback ''Service Misconfigurations'' ''No misconfigurations found'')
      else
        Inr (SmCard ''Service Misconfigurations''
               (map (\<lambda>(service, resources).
                       (service, if length resources = 0 then NoIssuesFound else ResourceBoxes resources))
                    (resourcesList services))))"

section \<open>Trend chart\<close>

text \<open>
  \<^verbatim>\<open>parseISO\<close> and \<^verbatim>\<open>format\<close> belong to date-fns and are parameters here:
  \<open>parseISO s\<close> is \<open>None\<close> when date-fns returns Invalid Date for the string \<open>s\<close>.
  For an argument that is not a string \<^verbatim>\<open>parseISO\<close> returns Invalid Date, and
  \<^verbatim>\<open>format\<close> throws a RangeError on Invalid Date.
\<close>

record point =
  pt_date :: string
  pt_value :: rat

definition parseISO_arg :: "(string \<Rightarrow> 'd option) \<Rightarrow> json \<Rightarrow> 'd option" where
  "parseISO_arg parseISO v = (case v of JStr s \<Rightarrow> parseISO s | _ \<Rightarrow> None)"

text \<open>
  The callback of \<^verbatim>\<open>data.map\<close>: \<open>Inr None\<close> is the \<^verbatim>\<open>null\<close> it returns for a point
  it rejects, \<open>Inl\<close> a throw.
\<close>

definition format_item ::
  "(string \<Rightarrow> 'd option) \<Rightarrow> ('d \<Rightarrow> string) \<Rightarrow> json \<Rightarrow> js_error + point option" where
  "format_item parseISO format item =
     (case get_prop item ''date'' of
        Inl e \<Rightarrow> Inl e
      | Inr None \<Rightarrow> Inr None
      | Inr (Some d) \<Rightarrow>
          if \<not> truthy d then Inr None
          else
            (case get_prop item ''value'' of
               Inl e \<Rightarrow> Inl e
             | Inr (Some (JNum v)) \<Rightarrow>
                 (case parseISO_arg parseISO d of
                    None \<Rightarrow> Inl RangeError
                  | Some t \<Rightarrow> Inr (Some \<lparr>pt_date = format t, pt_value = v\<rparr>))
             | Inr _ \<Rightarrow> Inr None))"

text \<open>\<^verbatim>\<open>Array.prototype.map\<close> with a callback that may throw: the first throw ends the call.\<close>

fun map_throwing :: "('a \<Rightarrow> js_error + 'b) \<Rightarrow> 'a list \<Rightarrow> js_error + 'b list" where
  "map_throwing f [] = Inr []"
| "map_throwing f (x # xs) =
     (case f x of
        Inl e \<Rightarrow> Inl e
      | Inr y \<Rightarrow> (case map_throwing f xs of Inl e \<Rightarrow> Inl e | Inr ys \<Rightarrow> Inr (y # ys)))"

text \<open>\<^verbatim>\<open>.filter(Boolean)\<close> on a list of points and nulls: every point is truthy.\<close>

definition filter_Boolean :: "'a option list \<Rightarrow> 'a list" where
  "filter_Boolean ys = List.map_filter (\<lambda>y. y) ys"

text \<open>
  \<^verbatim>\<open>formattedData\<close>, on the value of \<^verbatim>\<open>data\<close> after the default parameter has been
  applied. The console output is not modelled.
\<close>

definition formattedData ::
  "(string \<Rightarrow> 'd option) \<Rightarrow> ('d \<Rightarrow> string) \<Rightarrow> json \<Rightarrow> js_error + point list" where
  "formattedData parseISO format data =
     (case data of
        JArr items \<Rightarrow>
          (case map_throwing (format_item parseISO format) items of
             Inl e \<Rightarrow> Inl e
           | Inr ys \<Rightarrow> Inr (filter_Boolean ys))
      | _ \<Rightarrow> Inr [])"

text \<open>The default parameter \<^verbatim>\<open>data = []\<close> replaces \<^verbatim>\<open>undefined\<close> (\<open>None\<close>) only.\<close>

definition default_data :: "json option \<Rightarrow> json" where
  "default_data data_prop = (case data_prop of None \<Rightarrow> JArr [] | Some d \<Rightarrow> d)"

text \<open>The trend-formatting computation as the component runs it on its \<^verbatim>\<open>data\<close> prop.\<close>

definition formatSeries ::
  "(string \<Rightarrow> 'd option) \<Rightarrow> ('d \<Rightarrow> string) \<Rightarrow> json option \<Rightarrow> js_error + point list" where
  "formatSeries parseISO format data_prop = formattedData parseISO format (default_data data_prop)"

text \<open>
  The component: a throw while formatting leaves the render; otherwise the empty state
  when \<^verbatim>\<open>!data || data.length === 0\<close>, else the line chart over the formatted points.
\<close>

datatype tc_render =
    NoTrendData string int string
  | TrendLineChart string int "point list"

definition TrendChart ::
  "(string \<Rightarrow> 'd option) \<Rightarrow> ('d \<Rightarrow> string) \<Rightarrow> string \<Rightarrow> int \<Rightarrow> json option \<Rightarrow> js_error + tc_render" where
  "TrendChart parseISO format title timeRange data_prop =
     (let data = default_data data_prop in
      case formattedData parseISO format data of
        Inl e \<Rightarrow> Inl e
      | Inr formatted \<Rightarrow>
          if \<not> truthy data \<or> length_prop data = Some (JNum 0) then
            Inr (NoTrendData title timeRange ''No trend data available'')
          else Inr (TrendLineChart title timeRange formatted))"

section \<open>Risk charts\<close>

text \<open>An entry of a chart's data array: \<^verbatim>\<open>{ name, value, color }\<close>.\<close>

record segment =
  seg_name :: string
  seg_value :: int
  seg_color :: string

text \<open>
  \<^verbatim>\<open>RiskAssessment\<close> builds three entries from the metrics and hands them to the donut
  chart and the legend; its JSX holds the title and no other text.
\<close>

record ra_render =
  ra_title :: string
  ra_donut_data :: "segment list"
  ra_donut_colors :: "string list"
  ra_legend_categories :: "string list"
  ra_legend_colors :: "string list"

definition RiskAssessment :: "risk_metrics \<Rightarrow> ra_render" where
  "RiskAssessment metrics =
     (let data = [\<lparr>seg_name = ''High Risk'', seg_value = high metrics, seg_color = ''rose''\<rparr>,
                  \<lparr>seg_name = ''Medium Risk'', seg_value = medium metrics, seg_color = ''amber''\<rparr>,
                  \<lparr>seg_name = ''Low Risk'', seg_value = low metrics, seg_color = ''emerald''\<rparr>]
      in \<lparr>ra_title = ''Risk Assessment'',
          ra_donut_data = data,
          ra_donut_colors = [''rose'', ''amber'', ''emerald''],
          ra_legend_categories = [''High Risk'', ''Medium Risk'', ''Low Risk''],
          ra_legend_colors = [''rose'', ''amber'', ''emerald'']\<rparr>)"

text \<open>An integer rendered as JSX text: its decimal digits, with a minus sign when negative.\<close>

fun digits :: "nat \<Rightarrow> string" where
  "digits n = (if n < 10 then [char_of (48 + n)] else digits (n div 10) @ [char_of (48 + n mod 10)])"

declare digits.simps [simp del]

definition Number_toString :: "int \<Rightarrow> string" where
  "Number_toString i = (if i < 0 then CHR ''-'' # digits (nat (- i)) else digits (nat i))"

text \<open>
  \<^verbatim>\<open>SecurityOverview\<close>, the card titled \<^verbatim>\<open>Risk Overview\<close>: it takes no props and
  charts the module's own constant array.
\<close>

definition overview_data :: "segment list" where
  "overview_data =
     [\<lparr>seg_name = ''Critical'', seg_value = 3, seg_color = ''#ef4444''\<rparr>,
      \<lparr>seg_name = ''High'', seg_value = 8, seg_color = ''#f97316''\<rparr>,
      \<lparr>seg_name = ''Medium'', seg_value = 15, seg_color = ''#eab308''\<rparr>,
      \<lparr>seg_name = ''Low'', seg_value = 24, seg_color = ''#22c55e''\<rparr>]"

record so_render =
  so_title :: string
  so_total_text :: string
  so_pie_data :: "segment list"
  so_cell_fills :: "string list"
  so_rows :: "(string \<times> string \<times> string) list"

definition SecurityOverview :: so_render where
  "SecurityOverview =
     (let total = foldl (\<lambda>sum item. sum + seg_value item) 0 overview_data in
      \<lparr>so_title = ''Risk Overview'',
       so_total_text = Number_toString total @ '' issues'',
       so_pie_data = overview_data,
       so_cell_fills = map seg_color overview_data,
       so_rows = map (\<lambda>item. (seg_color item, seg_name item,
                                 Number_toString (seg_value item) @ '' issues'')) overview_data\<rparr>)"

section \<open>Double arithmetic\<close>

text \<open>
  JavaScript numbers are IEEE 754 binary64 values. A finite double is a rational, and an
  arithmetic operation returns the exact result rounded to the nearest double, a tie
  going to the even significand. Results beyond the largest double (the infinities) and
  NaN are not modelled.
\<close>

fun bit_length :: "nat \<Rightarrow> nat" where
  "bit_length n = (if n = 0 then 0 else Suc (bit_length (n div 2)))"

declare bit_length.simps [simp del]

definition pow2 :: "int \<Rightarrow> rat" where
  "pow2 e = (if 0 \<le> e then 2 ^ nat e else 1 / 2 ^ nat (- e))"

text \<open>The binary exponent of a positive rational \<open>a\<close>: the \<open>e\<close> with \<open>2^e \<le> a < 2^(e+1)\<close>.\<close>

definition ilog2 :: "rat \<Rightarrow> int" where
  "ilog2 a = (if 1 \<le> a then int (bit_length (nat \<lfloor>a\<rfloor>)) - 1
              else - int (bit_length (nat (\<lceil>1 / a\<rceil> - 1))))"

definition round_half_even :: "rat \<Rightarrow> int" where
  "round_half_even a =
     (let f = \<lfloor>a\<rfloor>; d = a - of_int f in
      if d < 1 / 2 then f else if 1 / 2 < d then f + 1 else if even f then f else f + 1)"

text \<open>
  Rounding to the nearest double: 53 significant bits, and below \<open>2^(-1022)\<close> the fixed
  spacing \<open>2^(-1074)\<close> of the subnormal numbers.
\<close>

definition to_double :: "rat \<Rightarrow> rat" where
  "to_double x =
     (if x = 0 then 0
      else
        (let a = \<bar>x\<bar>;
             e = max (ilog2 a) (- 1022);
             q = pow2 (e - 52);
             n = round_half_even (a / q)
         in (if x < 0 then - 1 else 1) * of_int n * q))"

text \<open>The operators \<^verbatim>\<open>+\<close>, \<^verbatim>\<open>-\<close>, \<^verbatim>\<open>*\<close> and \<^verbatim>\<open>/\<close> on doubles.\<close>

definition fadd :: "rat \<Rightarrow> rat \<Rightarrow> rat" where
  "fadd a b = to_double (a + b)"

definition fsub :: "rat \<Rightarrow> rat \<Rightarrow> rat" where
  "fsub a b = to_double (a - b)"

definition fmul :: "rat \<Rightarrow> rat \<Rightarrow> rat" where
  "fmul a b = to_double (a * b)"

definition fdiv :: "rat \<Rightarrow> rat \<Rightarrow> rat" where
  "fdiv a b = to_double (a / b)"

section \<open>Pie slice labels\<close>

text \<open>
  The props the pie chart passes to the label function; every number is a double.
\<close>

record label_props =
  cx :: rat
  cy :: rat
  midAngle :: rat
  innerRadius :: rat
  outerRadius :: rat
  percent :: rat
  slice_name :: string
  slice_value :: rat

text \<open>\<^verbatim>\<open>Math.PI\<close> is the double nearest to pi; \<^verbatim>\<open>RADIAN = Math.PI / 180\<close>.\<close>

definition Math_PI :: rat where
  "Math_PI = 884279719003555 / 281474976710656"

definition RADIAN :: rat where
  "RADIAN = fdiv Math_PI 180"

text \<open>
  \<^verbatim>\<open>Number(x.toFixed(0))\<close>: \<^verbatim>\<open>toFixed\<close> rounds the magnitude of the double to the
  nearest integer, the larger one on a tie, and puts the sign back.
\<close>

definition toFixed0 :: "rat \<Rightarrow> int" where
  "toFixed0 x = (if x < 0 then - \<lfloor>- x + 1 / 2\<rfloor> else \<lfloor>x + 1 / 2\<rfloor>)"

text \<open>
  The rendered \<^verbatim>\<open>text\<close> element: its position and anchor, and the three parts of
  its content \<^verbatim>\<open>${value} ${name} (${percentageValue}%)\<close>.
\<close>

record slice_label =
  label_x :: rat
  label_y :: rat
  label_textAnchor :: string
  label_value :: rat
  label_name :: string
  label_percentage :: int

text \<open>
  \<^verbatim>\<open>renderCustomizedLabel\<close>. The results of \<^verbatim>\<open>Math.cos\<close> and \<^verbatim>\<open>Math.sin\<close> are
  left to the engine by the language, so the two functions are parameters.
\<close>

definition renderCustomizedLabel ::
  "(rat \<Rightarrow> rat) \<Rightarrow> (rat \<Rightarrow> rat) \<Rightarrow> label_props \<Rightarrow> slice_label option" where
  "renderCustomizedLabel Math_cos Math_sin p =
     (let radius = fadd (innerRadius p) (fmul (fsub (outerRadius p) (innerRadius p)) (1 / 2));
          x = fadd (cx p) (fmul radius (Math_cos (fmul (- midAngle p) RADIAN)));
          y = fadd (cy p) (fmul radius (Math_sin (fmul (- midAngle p) RADIAN)));
          c = Math_cos (fmul (- midAngle p) RADIAN);
          textAnchor = (if c \<ge> 0 then ''start'' else ''end'');
          percentageValue = toFixed0 (fmul (percent p) 100)
      in if percentageValue < 5 then None
         else
           (let adjustedX = (if c \<ge> 0 then min x (fadd (cx p) 70) else max x (fsub (cx p) 70))
            in Some \<lparr>label_x = adjustedX, label_y = y, label_textAnchor = textAnchor,
                      label_value = slice_value p, label_name = slice_name p,
                      label_percentage = percentageValue\<rparr>))"

section \<open>Helper lemmas\<close>

lemma length_concat_map: "length (concat (map f xs)) = sum_list (map (\<lambda>x. length (f x)) xs)"
  by (induction xs) auto

lemma map_throwing_length: "map_throwing f xs = Inr ys \<Longrightarrow> length ys = length xs"
  by (induction xs arbitrary: ys) (auto split: sum.splits)

lemma map_throwing_set:
  "map_throwing f xs = Inr ys \<Longrightarrow> y \<in> set ys \<Longrightarrow> \<exists>x \<in> set xs. f x = Inr y"
  by (induction xs arbitrary: ys) (auto split: sum.splits)

lemma map_throwing_append_Inl:
  "f x = Inl e \<Longrightarrow> \<exists>e'. map_throwing f (pre @ x # post) = Inl e'"
  by (induction pre) (auto split: sum.splits)

lemma length_filter_Boolean: "length (filter_Boolean ys) \<le> length ys"
  by (simp add: filter_Boolean_def List.map_filter_def)

lemma set_filter_Boolean: "p \<in> set (filter_Boolean ys) \<longleftrightarrow> Some p \<in> set ys"
  by (induction ys) (auto simp add: filter_Boolean_def split: option.splits)

lemma format_item_unparseable:
  "parseISO s = None \<Longrightarrow> s \<noteq> [] \<Longrightarrow>
   format_item parseISO format (JObj [(''date'', JStr s), (''value'', JNum v)]) = Inl RangeError"
  by (simp add: format_item_def parseISO_arg_def)

text \<open>A point that \<^verbatim>\<open>format_item\<close> keeps came from an item with a non-empty string date
  that parses and a numeric value.\<close>

lemma format_item_Some:
  assumes "format_item parseISO format item = Inr (Some p)"
  shows "\<exists>s t v. get_prop item ''date'' = Inr (Some (JStr s)) \<and> s \<noteq> [] \<and> parseISO s = Some t \<and>
        get_prop item ''value'' = Inr (Some (JNum v)) \<and> p = \<lparr>pt_date = format t, pt_value = v\<rparr>"
proof (cases "get_prop item ''date''")
  case (Inl e)
  with assms show ?thesis by (simp add: format_item_def)
next
  case (Inr d)
  show ?thesis
  proof (cases d)
    case None
    with Inr assms show ?thesis by (simp add: format_item_def)
  next
    case (Some dv)
    with Inr assms have tr: "truthy dv"
      by (simp add: format_item_def split: if_splits)
    from Inr Some assms tr obtain v where v: "get_prop item ''value'' = Inr (Some (JNum v))"
      by (auto simp add: format_item_def split: sum.splits option.splits json.splits)
    from Inr Some assms tr v obtain t where t: "parseISO_arg parseISO dv = Some t"
      and p: "p = \<lparr>pt_date = format t, pt_value = v\<rparr>"
      by (auto simp add: format_item_def split: option.splits)
    from t obtain s where s: "dv = JStr s" and ps: "parseISO s = Some t"
      by (auto simp add: parseISO_arg_def split: json.splits)
    from tr s have "s \<noteq> []" by simp
    with Inr Some s ps v p show ?thesis by simp
  qed
qed

lemma toFixed0_less_5: "(toFixed0 x < 5) = (round x < 5)"
  unfolding toFixed0_def round_def by (auto; linarith)

text \<open>The doubles written \<^verbatim>\<open>0.045\<close>, \<^verbatim>\<open>0.044\<close> and \<^verbatim>\<open>0.145\<close>, times 100.\<close>

lemma double_0045_times_100: "fmul (3242591731706757 / 72057594037927936) 100 = 9 / 2"
  by code_simp

lemma double_0044_times_100:
  "fmul (3170534137668829 / 72057594037927936) 100 = 4953959590107545 / 1125899906842624"
  by code_simp

lemma double_0145_times_100:
  "fmul (5224175567749775 / 36028797018963968) 100 = 8162774324609023 / 562949953421312"
  by code_simp

lemma floor_double_0145_percent: "\<lfloor>8444249301319679 / 562949953421312 :: rat\<rfloor> = 14"
  by code_simp

lemma NextResponse_json_500:
  "NextResponse_json (JObj [(''error'', JStr ''Internal server error'')]) 500
     = Inr internal_server_error"
  by (simp add: NextResponse_json_def internal_server_error_def)

lemma getResourceColor_RDS: "getResourceColor ''RDS'' = ''#33a02c''"
  by code_simp

section \<open>The proxy route\<close>

text \<open>
  Claim C1, as stated, fails: a non-2xx upstream response is not passed through verbatim.
  The route rebuilds the body as an object with the single key \<^verbatim>\<open>error\<close>. Upstream
  answers 503 with the body \<^verbatim>\<open>{"message": "Service Unavailable"}\<close>; the local
  response body is \<^verbatim>\<open>{"error": "Failed to fetch dashboard data"}\<close>, not the upstream
  body.
\<close>

theorem GET_error_body_not_verbatim:
  "res_body (response (GET None
       (\<lambda>u. FetchResolves \<lparr>up_status = 503,
                               up_json = Some (JObj [(''message'', JStr ''Service Unavailable'')])\<rparr>)
       \<lparr>searchParams = [(''days'', ''90'')]\<rparr>))
   \<noteq> JObj [(''message'', JStr ''Service Unavailable'')]"
  by (simp add: GET_def Let_def ok_def NextResponse_json_def or_else_def)

text \<open>
  Claim C1, amended. A request with \<^verbatim>\<open>days=90\<close> makes exactly one upstream call, to
  \<^verbatim>\<open>{API_URL}/api/dashboard?days=90\<close>. For a non-2xx upstream response with a status
  from 300 to 599 other than 304, whose body parses to a value that is not \<^verbatim>\<open>null\<close>,
  the local response has the upstream status and the body \<^verbatim>\<open>{error: e}\<close>, where
  \<^verbatim>\<open>e\<close> is the upstream body's \<^verbatim>\<open>error\<close> property when that is truthy and
  \<^verbatim>\<open>'Failed to fetch dashboard data'\<close> otherwise. When the fetch rejects, when the
  body does not parse, when a non-2xx body is \<^verbatim>\<open>null\<close>, or when a non-2xx status is
  one that \<^verbatim>\<open>NextResponse.json\<close> refuses (below 200, above 599, or 304), the response
  is 500 with \<^verbatim>\<open>{error: "Internal server error"}\<close>.
\<close>

theorem GET_proxy_contract:
  "(searchParams_get req ''days'' = Some ''90'' \<longrightarrow>
      upstream_calls (GET env fetch req) = [API_URL env @ ''/api/dashboard?days=90''])
   \<and> (\<forall>r errorData.
        fetch (upstream_url env req) = FetchResolves r \<and> \<not> ok r \<and>
        200 \<le> up_status r \<and> up_status r \<le> 599 \<and> up_status r \<noteq> 304 \<and>
        up_json r = Some errorData \<and> errorData \<noteq> JNull \<longrightarrow>
        (\<exists>err. get_prop errorData ''error'' = Inr err \<and>
           response (GET env fetch req) =
             \<lparr>res_status = up_status r,
              res_body = JObj [(''error'', or_else err (JStr ''Failed to fetch dashboard data''))]\<rparr>))
   \<and> (fetch (upstream_url env req) = FetchRejects \<or>
        (\<exists>r. fetch (upstream_url env req) = FetchResolves r \<and>
             (up_json r = None \<or>
              (\<not> ok r \<and> (up_json r = Some JNull \<or> up_status r < 200 \<or>
                           599 < up_status r \<or> up_status r = 304)))) \<longrightarrow>
        response (GET env fetch req) =
          \<lparr>res_status = 500, res_body = JObj [(''error'', JStr ''Internal server error'')]\<rparr>)"
proof (intro conjI allI impI)
  assume "searchParams_get req ''days'' = Some ''90''"
  then show "upstream_calls (GET env fetch req) = [API_URL env @ ''/api/dashboard?days=90'']"
    by (simp add: GET_def Let_def upstream_url_def)
next
  fix r errorData
  assume a: "fetch (upstream_url env req) = FetchResolves r \<and> \<not> ok r \<and>
        200 \<le> up_status r \<and> up_status r \<le> 599 \<and> up_status r \<noteq> 304 \<and>
        up_json r = Some errorData \<and> errorData \<noteq> JNull"
  then obtain err where err: "get_prop errorData ''error'' = Inr err"
    by (cases errorData) simp_all
  from a have st: "up_status r \<noteq> 204" "up_status r \<noteq> 205"
    by (auto simp add: ok_def)
  from a err st have "response (GET env fetch req) =
          \<lparr>res_status = up_status r,
           res_body = JObj [(''error'', or_else err (JStr ''Failed to fetch dashboard data''))]\<rparr>"
    by (simp add: GET_def Let_def NextResponse_json_def)
  with err show "\<exists>err. get_prop errorData ''error'' = Inr err \<and>
           response (GET env fetch req) =
             \<lparr>res_status = up_status r,
              res_body = JObj [(''error'', or_else err (JStr ''Failed to fetch dashboard data''))]\<rparr>"
    by blast
next
  assume a: "fetch (upstream_url env req) = FetchRejects \<or>
        (\<exists>r. fetch (upstream_url env req) = FetchResolves r \<and>
             (up_json r = None \<or>
              (\<not> ok r \<and> (up_json r = Some JNull \<or> up_status r < 200 \<or>
                           599 < up_status r \<or> up_status r = 304))))"
  show "response (GET env fetch req) =
          \<lparr>res_status = 500, res_body = JObj [(''error'', JStr ''Internal server error'')]\<rparr>"
  proof (cases "fetch (upstream_url env req)")
    case FetchRejects
    then show ?thesis by (simp add: GET_def Let_def internal_server_error_def)
  next
    case (FetchResolves r)
    with a have b: "up_json r = None \<or>
              (\<not> ok r \<and> (up_json r = Some JNull \<or> up_status r < 200 \<or>
                           599 < up_status r \<or> up_status r = 304))"
      by simp
    show ?thesis
    proof (cases "up_json r")
      case None
      with FetchResolves show ?thesis by (simp add: GET_def Let_def internal_server_error_def)
    next
      case (Some errorData)
      with b have nok: "\<not> ok r"
        and c: "errorData = JNull \<or> up_status r < 200 \<or> 599 < up_status r \<or> up_status r = 304"
        by auto
      show ?thesis
      proof (cases "get_prop errorData ''error''")
        case (Inl e)
        with FetchResolves Some nok show ?thesis
          by (simp add: GET_def Let_def internal_server_error_def)
      next
        case (Inr err)
        then have "errorData \<noteq> JNull" by auto
        with c have "up_status r < 200 \<or> 599 < up_status r \<or> up_status r = 304" by simp
        then have "\<exists>e. NextResponse_json
                 (JObj [(''error'', or_else err (JStr ''Failed to fetch dashboard data''))])
                 (up_status r) = Inl e"
          by (auto simp add: NextResponse_json_def)
        with FetchResolves Some nok Inr show ?thesis
          by (auto simp add: GET_def Let_def internal_server_error_def)
      qed
    qed
  qed
qed

theorem GET_proxy_contract_witness:
  "upstream_calls (GET None (\<lambda>u. FetchRejects) \<lparr>searchParams = [(''days'', ''90'')]\<rparr>)
     = [''http://localhost:5000/api/dashboard?days=90'']
   \<and> response (GET None
         (\<lambda>u. FetchResolves \<lparr>up_status = 503,
                 up_json = Some (JObj [(''error'', JStr ''backend down''), (''detail'', JStr ''db'')])\<rparr>)
         \<lparr>searchParams = [(''days'', ''90'')]\<rparr>)
     = \<lparr>res_status = 503, res_body = JObj [(''error'', JStr ''backend down'')]\<rparr>
   \<and> response (GET None (\<lambda>u. FetchRejects) \<lparr>searchParams = [(''days'', ''90'')]\<rparr>)
     = \<lparr>res_status = 500, res_body = JObj [(''error'', JStr ''Internal server error'')]\<rparr>
   \<and> response (GET None
         (\<lambda>u. FetchResolves \<lparr>up_status = 600,
                 up_json = Some (JObj [(''error'', JStr ''backend down'')])\<rparr>)
         \<lparr>searchParams = [(''days'', ''90'')]\<rparr>)
     = \<lparr>res_status = 500, res_body = JObj [(''error'', JStr ''Internal server error'')]\<rparr>"
  using GET_proxy_contract
      [where req = "\<lparr>searchParams = [(''days'', ''90'')]\<rparr>" and env = None
         and fetch = "\<lambda>u. FetchRejects"]
    GET_proxy_contract
      [where req = "\<lparr>searchParams = [(''days'', ''90'')]\<rparr>" and env = None
         and fetch = "\<lambda>u. FetchResolves \<lparr>up_status = 503,
                 up_json = Some (JObj [(''error'', JStr ''backend down''), (''detail'', JStr ''db'')])\<rparr>"]
    GET_proxy_contract
      [where req = "\<lparr>searchParams = [(''days'', ''90'')]\<rparr>" and env = None
         and fetch = "\<lambda>u. FetchResolves \<lparr>up_status = 600,
                 up_json = Some (JObj [(''error'', JStr ''backend down'')])\<rparr>"]
  by (simp add: searchParams_get_def API_URL_def ok_def or_else_def)

text \<open>
  Claim C10. When the request has no \<^verbatim>\<open>days\<close> parameter, or an empty one, the route
  calls the upstream at \<^verbatim>\<open>{API_URL}/api/dashboard?days=30\<close>; and for every request the
  one upstream URL carries a non-empty \<^verbatim>\<open>days\<close> value.
\<close>

theorem GET_default_days:
  "(searchParams_get req ''days'' = None \<or> searchParams_get req ''days'' = Some '''' \<longrightarrow>
      upstream_calls (GET env fetch req) = [API_URL env @ ''/api/dashboard?days=30''])
   \<and> (\<exists>d. d \<noteq> [] \<and>
          upstream_calls (GET env fetch req) = [API_URL env @ ''/api/dashboard?days='' @ d])"
  by (auto simp add: GET_def Let_def upstream_url_def split: option.splits)

theorem GET_default_days_witness:
  "upstream_calls (GET None (\<lambda>u. FetchRejects) \<lparr>searchParams = [(''range'', ''7'')]\<rparr>)
     = [''http://localhost:5000/api/dashboard?days=30'']
   \<and> upstream_calls (GET (Some ''http://backend:8000'') (\<lambda>u. FetchRejects)
         \<lparr>searchParams = [(''days'', '''')]\<rparr>)
     = [''http://backend:8000/api/dashboard?days=30'']"
  using GET_default_days
      [where req = "\<lparr>searchParams = [(''range'', ''7'')]\<rparr>" and env = None
         and fetch = "\<lambda>u. FetchRejects"]
    GET_default_days
      [where req = "\<lparr>searchParams = [(''days'', '''')]\<rparr>" and env = "Some ''http://backend:8000''"
         and fetch = "\<lambda>u. FetchRejects"]
  by (simp add: searchParams_get_def API_URL_def)

section \<open>Colour mappings\<close>

text \<open>
  Claim C4, as stated, fails: the risk levels \<^verbatim>\<open>Medium\<close> and \<^verbatim>\<open>Low\<close> are to get
  a palette colour, and \<^verbatim>\<open>getRiskLevelColor\<close> gives both the neutral gray classes,
  the colour it gives an unrecognised string; \<^verbatim>\<open>Low\<close> has no case of its own.
\<close>

theorem risk_Low_Medium_not_palette:
  "getRiskLevelColor ''Low'' \<notin> set risk_palette
   \<and> getRiskLevelColor ''Medium'' \<notin> set risk_palette
   \<and> getRiskLevelColor ''Low'' = getRiskLevelColor ''Unrecognised''
   \<and> getRiskLevelColor ''Medium'' = getRiskLevelColor ''Unrecognised''"
  by (simp add: getRiskLevelColor_def risk_palette_def)

text \<open>
  Claim C4, amended. For a severity in HIGH, MEDIUM, LOW, \<^verbatim>\<open>getSeverityColor\<close> returns
  one of the palette colours rose, amber, emerald, and for any other string the neutral
  default slate. \<^verbatim>\<open>getRiskLevelColor\<close> returns a palette colour, the red or the blue
  classes, for the risk levels Critical and High, and the neutral default gray classes
  for Medium, Low and any other string. Neither neutral default is a palette colour, and
  both functions are total with no throwing branch.
\<close>

theorem colour_mapping_palette:
  "(s \<in> set [''HIGH'', ''MEDIUM'', ''LOW''] \<longrightarrow> getSeverityColor s \<in> set severity_palette)
   \<and> (s \<notin> set [''HIGH'', ''MEDIUM'', ''LOW''] \<longrightarrow> getSeverityColor s = ''slate'')
   \<and> (l \<in> set [''Critical'', ''High''] \<longrightarrow> getRiskLevelColor l \<in> set risk_palette)
   \<and> (l \<notin> set [''Critical'', ''High''] \<longrightarrow>
         getRiskLevelColor l = ''bg-gray-100 text-gray-800'')
   \<and> ''slate'' \<notin> set severity_palette
   \<and> ''bg-gray-100 text-gray-800'' \<notin> set risk_palette"
  by (simp add: getSeverityColor_def getRiskLevelColor_def severity_palette_def risk_palette_def)

theorem colour_mapping_palette_witness:
  "getSeverityColor ''MEDIUM'' \<in> set severity_palette
   \<and> getSeverityColor ''CRITICAL'' = ''slate''
   \<and> getRiskLevelColor ''High'' \<in> set risk_palette
   \<and> getRiskLevelColor ''Low'' = ''bg-gray-100 text-gray-800''"
  using colour_mapping_palette [of "''MEDIUM''" "''High''"]
    colour_mapping_palette [of "''CRITICAL''" "''Low''"]
  by simp

text \<open>
  Claim C8, as stated, fails: the risk level \<^verbatim>\<open>High\<close> is to map to an amber/orange
  colour, and \<^verbatim>\<open>getRiskLevelColor\<close> returns the blue classes for it.
\<close>

theorem risk_High_not_amber:
  "family_of (getRiskLevelColor ''High'') \<noteq> Some (spec_risk_family ''High'')"
  by (simp add: getRiskLevelColor_def family_of_def spec_risk_family_def)

text \<open>
  Claim C8, amended. For every string, \<^verbatim>\<open>getSeverityColor\<close> maps HIGH to a red-family
  colour, MEDIUM to an amber colour, LOW to a green colour and anything else to neutral
  slate; \<^verbatim>\<open>getRiskLevelColor\<close> maps Critical to a red-family colour, High to a blue
  colour, and Medium and every other string to neutral gray.
\<close>

theorem colour_families:
  "family_of (getSeverityColor s) = Some (spec_severity_family s)
   \<and> family_of (getRiskLevelColor l) =
       Some (if l = ''Critical'' then RedFamily
             else if l = ''High'' then GreenBlueFamily
             else NeutralGrayFamily)
   \<and> getRiskLevelColor ''High'' = ''bg-blue-100 text-blue-800''
   \<and> getRiskLevelColor ''Medium'' = ''bg-gray-100 text-gray-800''"
  by (simp add: getSeverityColor_def getRiskLevelColor_def family_of_def spec_severity_family_def)

section \<open>Graph projection\<close>

text \<open>
  Claim C5. For a list of N resources with E relationship entries in total, the projected
  graph has exactly N nodes, the i-th carrying the id, the name and the type-derived
  colour of the i-th resource, and exactly E links; every relationship entry of every
  resource is a link from that resource to the entry's target, whether or not the target
  is the id of a node.
\<close>

theorem graphData_projection:
  "length (nodes (graphData rs)) = length rs
   \<and> (\<forall>i < length rs.
        node_id (nodes (graphData rs) ! i) = res_id (rs ! i) \<and>
        node_name (nodes (graphData rs) ! i) = res_name (rs ! i) \<and>
        node_color (nodes (graphData rs) ! i) = getResourceColor (res_type (rs ! i)))
   \<and> length (links (graphData rs)) = sum_list (map (\<lambda>r. length (relationships r)) rs)
   \<and> (\<forall>r \<in> set rs. \<forall>t \<in> set (relationships r).
        \<lparr>link_source = res_id r, link_target = t\<rparr> \<in> set (links (graphData rs)))"
  by (auto simp add: graphData_def length_concat_map)

theorem graphData_projection_witness:
  "length (nodes (graphData
      [\<lparr>res_id = ''web'', resource_id = ''i-01'', res_type = ''ec2'', res_name = ''web-server-01'',
        relationships = [''db'', ''ghost''], misconfigurations = ([] :: misconfiguration list)\<rparr>,
       \<lparr>res_id = ''db'', resource_id = ''db-01'', res_type = ''RDS'', res_name = ''orders'',
        relationships = [], misconfigurations = []\<rparr>])) = 2
   \<and> node_color (nodes (graphData
      [\<lparr>res_id = ''web'', resource_id = ''i-01'', res_type = ''ec2'', res_name = ''web-server-01'',
        relationships = [''db'', ''ghost''], misconfigurations = ([] :: misconfiguration list)\<rparr>,
       \<lparr>res_id = ''db'', resource_id = ''db-01'', res_type = ''RDS'', res_name = ''orders'',
        relationships = [], misconfigurations = []\<rparr>]) ! 1) = ''#33a02c''
   \<and> length (links (graphData
      [\<lparr>res_id = ''web'', resource_id = ''i-01'', res_type = ''ec2'', res_name = ''web-server-01'',
        relationships = [''db'', ''ghost''], misconfigurations = ([] :: misconfiguration list)\<rparr>,
       \<lparr>res_id = ''db'', resource_id = ''db-01'', res_type = ''RDS'', res_name = ''orders'',
        relationships = [], misconfigurations = []\<rparr>])) = 2
   \<and> \<lparr>link_source = ''web'', link_target = ''ghost''\<rparr> \<in> set (links (graphData
      [\<lparr>res_id = ''web'', resource_id = ''i-01'', res_type = ''ec2'', res_name = ''web-server-01'',
        relationships = [''db'', ''ghost''], misconfigurations = ([] :: misconfiguration list)\<rparr>,
       \<lparr>res_id = ''db'', resource_id = ''db-01'', res_type = ''RDS'', res_name = ''orders'',
        relationships = [], misconfigurations = []\<rparr>]))"
  using graphData_projection
    [of "[\<lparr>res_id = ''web'', resource_id = ''i-01'', res_type = ''ec2'', res_name = ''web-server-01'',
        relationships = [''db'', ''ghost''], misconfigurations = ([] :: misconfiguration list)\<rparr>,
       \<lparr>res_id = ''db'', resource_id = ''db-01'', res_type = ''RDS'', res_name = ''orders'',
        relationships = [], misconfigurations = []\<rparr>]"]
  by (simp add: getResourceColor_RDS)

section \<open>Pie slice labels\<close>

text \<open>
  Claim C6. \<^verbatim>\<open>renderCustomizedLabel\<close> returns \<^verbatim>\<open>null\<close> exactly when the slice's
  share, as the percentage \<^verbatim>\<open>percent * 100\<close> the function computes in doubles, rounded
  to the nearest integer, is strictly less than 5; a slice whose rounded share is exactly
  5 renders its label. This holds whatever \<^verbatim>\<open>Math.cos\<close> and \<^verbatim>\<open>Math.sin\<close> return.
\<close>

theorem renderCustomizedLabel_threshold:
  "(renderCustomizedLabel Math_cos Math_sin p = None) = (round (fmul (percent p) 100) < 5)
   \<and> (round (fmul (percent p) 100) = 5 \<longrightarrow> renderCustomizedLabel Math_cos Math_sin p \<noteq> None)"
  using toFixed0_less_5 [of "fmul (percent p) 100"]
  by (auto simp add: renderCustomizedLabel_def Let_def)

text \<open>
  At the double \<^verbatim>\<open>0.045\<close>, the share of 9 in 200, the product is the double 4.5 and
  the label is rendered with 5 percent; at the double \<^verbatim>\<open>0.044\<close> there is no label; at
  the double \<^verbatim>\<open>0.145\<close> the product lies below 14.5 and the label reads 14 percent.
\<close>

theorem renderCustomizedLabel_threshold_witness:
  "round (fmul (percent \<lparr>cx = 100, cy = 100, midAngle = 0, innerRadius = 35, outerRadius = 60,
      percent = 3242591731706757 / 72057594037927936,
      slice_name = ''Low'', slice_value = 9\<rparr>) 100) = 5
   \<and> map_option label_percentage
       (renderCustomizedLabel (\<lambda>a. 1) (\<lambda>a. 0)
          \<lparr>cx = 100, cy = 100, midAngle = 0, innerRadius = 35, outerRadius = 60,
           percent = 3242591731706757 / 72057594037927936,
           slice_name = ''Low'', slice_value = 9\<rparr>) = Some 5
   \<and> renderCustomizedLabel (\<lambda>a. 1) (\<lambda>a. 0)
       \<lparr>cx = 100, cy = 100, midAngle = 0, innerRadius = 35, outerRadius = 60,
        percent = 3170534137668829 / 72057594037927936,
        slice_name = ''Low'', slice_value = 11\<rparr> = None
   \<and> map_option label_percentage
       (renderCustomizedLabel (\<lambda>a. 1) (\<lambda>a. 0)
          \<lparr>cx = 100, cy = 100, midAngle = 0, innerRadius = 35, outerRadius = 60,
           percent = 5224175567749775 / 36028797018963968,
           slice_name = ''High'', slice_value = 29\<rparr>) = Some 14"
  using renderCustomizedLabel_threshold
      [of "\<lambda>a. 1" "\<lambda>a. 0" "\<lparr>cx = 100, cy = 100, midAngle = 0, innerRadius = 35,
        outerRadius = 60, percent = 3242591731706757 / 72057594037927936,
        slice_name = ''Low'', slice_value = 9\<rparr>"]
    renderCustomizedLabel_threshold
      [of "\<lambda>a. 1" "\<lambda>a. 0" "\<lparr>cx = 100, cy = 100, midAngle = 0, innerRadius = 35,
        outerRadius = 60, percent = 3170534137668829 / 72057594037927936,
        slice_name = ''Low'', slice_value = 11\<rparr>"]
  by (simp add: renderCustomizedLabel_def Let_def toFixed0_def round_def
      double_0045_times_100 double_0044_times_100 double_0145_times_100
      floor_double_0145_percent)

section \<open>Trend formatting\<close>

text \<open>
  Claim C9. The trend-formatting computation returns the empty sequence on the empty list
  and on \<^verbatim>\<open>undefined\<close>, and throws in neither case.
\<close>

theorem formatSeries_empty:
  "formatSeries parseISO format (Some (JArr [])) = Inr []
   \<and> formatSeries parseISO format None = Inr []"
  by (simp add: formatSeries_def formattedData_def default_data_def filter_Boolean_def)

text \<open>
  Claim C2 does not hold of the code. The guard of the \<^verbatim>\<open>map\<close> callback tests that
  the date is truthy, not that it parses: for a point with a non-empty date that date-fns
  cannot parse and a numeric value, \<^verbatim>\<open>format\<close> receives Invalid Date and throws. The
  point is not dropped; the throw ends the whole call, whatever the points before and
  after it are.
\<close>

theorem formatSeries_unparseable_date_throws:
  assumes "parseISO s = None" and "s \<noteq> []"
  shows "\<exists>e. formatSeries parseISO format
           (Some (JArr (pre @ JObj [(''date'', JStr s), (''value'', JNum v)] # post))) = Inl e"
proof -
  from assms
  have "format_item parseISO format (JObj [(''date'', JStr s), (''value'', JNum v)]) = Inl RangeError"
    by (rule format_item_unparseable)
  then obtain e' where
    "map_throwing (format_item parseISO format)
       (pre @ JObj [(''date'', JStr s), (''value'', JNum v)] # post) = Inl e'"
    using map_throwing_append_Inl [of "format_item parseISO format"] by blast
  then show ?thesis
    by (simp add: formatSeries_def formattedData_def default_data_def)
qed

theorem formatSeries_unparseable_date_throws_witness:
  "formatSeries (\<lambda>s. if s = ''2024-01-15'' then Some (2024 :: nat, 1 :: nat, 15 :: nat) else None)
     (\<lambda>t. ''Jan 15, 2024'')
     (Some (JArr [JObj [(''date'', JStr ''2024-01-15''), (''value'', JNum 3)],
                  JObj [(''date'', JStr ''not-a-date''), (''value'', JNum 1)]])) = Inl RangeError"
  using formatSeries_unparseable_date_throws
    [where parseISO = "\<lambda>s. if s = ''2024-01-15'' then Some (2024 :: nat, 1 :: nat, 15 :: nat) else None"
       and s = "''not-a-date''" and format = "\<lambda>t. ''Jan 15, 2024''"
       and pre = "[JObj [(''date'', JStr ''2024-01-15''), (''value'', JNum 3)]]"
       and v = 1 and post = "[]"]
  by (simp add: formatSeries_def formattedData_def default_data_def format_item_def parseISO_arg_def)

text \<open>
  What does hold of the trend formatting: whenever it returns, the result is no longer
  than the input array, and every retained point is the formatted image of an input point
  whose date is a non-empty string that parses and whose value is a number.
\<close>

theorem formatSeries_returns:
  assumes "formatSeries parseISO format (Some (JArr items)) = Inr ps"
  shows "length ps \<le> length items \<and>
         (\<forall>p \<in> set ps. \<exists>item \<in> set items. \<exists>s t v.
            get_prop item ''date'' = Inr (Some (JStr s)) \<and> s \<noteq> [] \<and> parseISO s = Some t \<and>
            get_prop item ''value'' = Inr (Some (JNum v)) \<and>
            p = \<lparr>pt_date = format t, pt_value = v\<rparr>)"
proof -
  from assms obtain ys where ys: "map_throwing (format_item parseISO format) items = Inr ys"
    and ps: "ps = filter_Boolean ys"
    by (auto simp add: formatSeries_def formattedData_def default_data_def split: sum.splits)
  have "length ps \<le> length items"
    using map_throwing_length [OF ys] length_filter_Boolean [of ys] ps by simp
  moreover have "\<exists>item \<in> set items. \<exists>s t v.
            get_prop item ''date'' = Inr (Some (JStr s)) \<and> s \<noteq> [] \<and> parseISO s = Some t \<and>
            get_prop item ''value'' = Inr (Some (JNum v)) \<and>
            p = \<lparr>pt_date = format t, pt_value = v\<rparr>" if "p \<in> set ps" for p
  proof -
    from that ps have "Some p \<in> set ys" by (simp add: set_filter_Boolean)
    with map_throwing_set [OF ys] obtain item where item: "item \<in> set items"
      and "format_item parseISO format item = Inr (Some p)" by blast
    from format_item_Some [OF this(2)] item show ?thesis by blast
  qed
  ultimately show ?thesis by blast
qed

theorem formatSeries_returns_witness:
  "formatSeries (\<lambda>s. if s = ''2024-01-15'' then Some (2024 :: nat, 1 :: nat, 15 :: nat) else None)
     (\<lambda>t. ''Jan 15, 2024'')
     (Some (JArr [JObj [(''date'', JStr ''2024-01-15''), (''value'', JNum 3)],
                  JObj [(''date'', JStr ''2024-01-16''), (''value'', JStr ''n/a'')],
                  JObj [(''value'', JNum 4)]]))
     = Inr [\<lparr>pt_date = ''Jan 15, 2024'', pt_value = 3\<rparr>]
   \<and> length [\<lparr>pt_date = ''Jan 15, 2024'', pt_value = 3\<rparr>]
       \<le> length [JObj [(''date'', JStr ''2024-01-15''), (''value'', JNum 3)],
                  JObj [(''date'', JStr ''2024-01-16''), (''value'', JStr ''n/a'')],
                  JObj [(''value'', JNum 4)]]"
  using formatSeries_returns
    [where parseISO = "\<lambda>s. if s = ''2024-01-15'' then Some (2024 :: nat, 1 :: nat, 15 :: nat) else None"
       and format = "\<lambda>t. ''Jan 15, 2024''"
       and items = "[JObj [(''date'', JStr ''2024-01-15''), (''value'', JNum 3)],
                  JObj [(''date'', JStr ''2024-01-16''), (''value'', JStr ''n/a'')],
                  JObj [(''value'', JNum 4)]]"
       and ps = "[\<lparr>pt_date = ''Jan 15, 2024'', pt_value = 3\<rparr>]"]
  by (simp add: formatSeries_def formattedData_def default_data_def format_item_def
      parseISO_arg_def filter_Boolean_def)

section \<open>Empty and missing collections\<close>

text \<open>
  Claim C3, as stated, fails: \<^verbatim>\<open>ResourceRelationships\<close> applied to \<^verbatim>\<open>undefined\<close>
  raises a TypeError instead of producing a render result.
\<close>

theorem ResourceRelationships_undefined_throws:
  "ResourceRelationships (None :: misconfiguration resource list option) = Inl TypeError"
  by (simp add: ResourceRelationships_def)

text \<open>
  Claim C3, amended. \<^verbatim>\<open>ServiceMisconfigurations\<close> and \<^verbatim>\<open>TrendChart\<close>, applied to
  an undefined or empty collection, render their empty-state fallback and do not throw.
  \<^verbatim>\<open>ResourceRelationships\<close>, whose props type requires the array, applied to the empty
  array renders its card over the graph with no node and no link, and does not throw.
\<close>

theorem empty_collections_render:
  "ServiceMisconfigurations None
     = Inr (SmFallback ''Service Misconfigurations'' ''No misconfigurations found'')
   \<and> ServiceMisconfigurations (Some [])
     = Inr (SmFallback ''Service Misconfigurations'' ''No misconfigurations found'')
   \<and> TrendChart parseISO format title timeRange None
     = Inr (NoTrendData title timeRange ''No trend data available'')
   \<and> TrendChart parseISO format title timeRange (Some (JArr []))
     = Inr (NoTrendData title timeRange ''No trend data available'')
   \<and> ResourceRelationships (Some [])
     = Inr (GraphCard ''Resource Relationships'' \<lparr>nodes = [], links = []\<rparr>)"
  by (simp add: ServiceMisconfigurations_def TrendChart_def ResourceRelationships_def graphData_def
      formattedData_def default_data_def filter_Boolean_def)

theorem empty_collections_render_witness:
  "ServiceMisconfigurations None
     = Inr (SmFallback ''Service Misconfigurations'' ''No misconfigurations found'')
   \<and> TrendChart (\<lambda>s. if s = ''2024-01-15'' then Some (2024 :: nat, 1 :: nat, 15 :: nat) else None)
       (\<lambda>t. ''Jan 15, 2024'') ''Overall Security Trend'' 30 None
     = Inr (NoTrendData ''Overall Security Trend'' 30 ''No trend data available'')
   \<and> TrendChart (\<lambda>s. if s = ''2024-01-15'' then Some (2024 :: nat, 1 :: nat, 15 :: nat) else None)
       (\<lambda>t. ''Jan 15, 2024'') ''EC2 Security Trend'' 7 (Some (JArr []))
     = Inr (NoTrendData ''EC2 Security Trend'' 7 ''No trend data available'')
   \<and> ResourceRelationships (Some ([] :: misconfiguration resource list))
     = Inr (GraphCard ''Resource Relationships'' \<lparr>nodes = [], links = []\<rparr>)"
  using empty_collections_render
      [where parseISO = "\<lambda>s. if s = ''2024-01-15'' then Some (2024 :: nat, 1 :: nat, 15 :: nat) else None"
         and format = "\<lambda>t. ''Jan 15, 2024''" and title = "''Overall Security Trend''"
         and timeRange = 30]
    empty_collections_render
      [where parseISO = "\<lambda>s. if s = ''2024-01-15'' then Some (2024 :: nat, 1 :: nat, 15 :: nat) else None"
         and format = "\<lambda>t. ''Jan 15, 2024''" and title = "''EC2 Security Trend''"
         and timeRange = 7]
  by (simp add: ResourceRelationships_def graphData_def)

section \<open>Risk overview\<close>

text \<open>
  Claim C7, as stated, fails. The card titled Risk Overview is \<^verbatim>\<open>SecurityOverview\<close>:
  it reads no dashboard data, its total does not read \<^verbatim>\<open>35 issues\<close> and its segments
  are not 3/8/24. \<^verbatim>\<open>RiskAssessment\<close>, which does receive the risk metrics 3, 8, 24,
  renders no text \<^verbatim>\<open>35 issues\<close>: not as its title, not as a legend category and not
  as a segment name.
\<close>

theorem risk_overview_total_not_35:
  "so_total_text SecurityOverview \<noteq> ''35 issues''
   \<and> map seg_value (so_pie_data SecurityOverview) \<noteq> [3, 8, 24]
   \<and> ''35 issues'' \<notin> set (ra_title (RiskAssessment \<lparr>high = 3, medium = 8, low = 24\<rparr>)
        # ra_legend_categories (RiskAssessment \<lparr>high = 3, medium = 8, low = 24\<rparr>)
        @ map seg_name (ra_donut_data (RiskAssessment \<lparr>high = 3, medium = 8, low = 24\<rparr>)))"
  by code_simp

text \<open>
  Claim C7, amended. Given the risk metrics high 3, medium 8, low 24,
  \<^verbatim>\<open>RiskAssessment\<close> renders exactly three donut segments, High Risk, Medium Risk and
  Low Risk, with the values 3, 8 and 24, and no total of its own. \<^verbatim>\<open>SecurityOverview\<close>
  charts its four constant entries 3, 8, 15, 24, and its total reads \<^verbatim>\<open>50 issues\<close>.
\<close>

theorem risk_charts_render:
  "map seg_value (ra_donut_data (RiskAssessment \<lparr>high = 3, medium = 8, low = 24\<rparr>)) = [3, 8, 24]
   \<and> map seg_name (ra_donut_data (RiskAssessment \<lparr>high = 3, medium = 8, low = 24\<rparr>))
       = [''High Risk'', ''Medium Risk'', ''Low Risk'']
   \<and> so_total_text SecurityOverview = ''50 issues''
   \<and> map seg_value (so_pie_data SecurityOverview) = [3, 8, 15, 24]"
  by code_simp

end
